theory Spec2Isabelle
  imports Complex_Main
begin

section \<open>Numbers, exceptions and arrays\<close>

text \<open>
  The transform engine of pyTracer (\<^verbatim>\<open>src/core/transform.py\<close>, \<^verbatim>\<open>src/core/quaternion.py\<close>)
  computes with numpy floats. Here \<^verbatim>\<open>FLOAT\<close> is the type \<^typ>\<open>real\<close>: arithmetic is exact, there
  is no rounding. Where numpy would produce \<^verbatim>\<open>inf\<close> or \<^verbatim>\<open>nan\<close> without raising (a division of
  a numpy float by zero, the square root of a negative number) the model returns the marker
  \<open>NonFinite\<close>, so that no theorem speaks about such a value. Every Python exception is a value
  of the type \<open>error\<close>, returned as \<open>Inl\<close>.

  \<^verbatim>\<open>np.linalg.inv\<close> belongs to numpy, not to the repository: it factors its argument in double
  precision, and neither the arrays on which it raises nor the array it returns are those of
  the exact inverse. Its outcome is therefore not computed here. It is the parameter
  \<open>linalg_inv\<close> of every function that can reach it, and the statements below hold for every
  such function.

  Modelled are the constructor of Transform, its application to a Point, a Vector, a Normal
  and a bounding box, \<^verbatim>\<open>scale\<close>, \<^verbatim>\<open>rotate_z\<close>, \<^verbatim>\<open>inverse\<close>, \<^verbatim>\<open>has_scale\<close>, the two conversions
  between quaternions and Transforms, and of AnimatedTransform the constructor,
  \<^verbatim>\<open>interpolate\<close> and \<^verbatim>\<open>motion_bounds\<close>. The other constructors, the product of
  Transforms, the application to a Ray, \<^verbatim>\<open>slerp\<close> and \<^verbatim>\<open>AnimatedTransform.__call__\<close> are not
  needed by any statement below.
\<close>

datatype error =
    TypeError | LinAlgError | IndexError | ValueError | AttributeError | NameError
  | ZeroDivisionError | NonFinite

definition bnd :: "error + 'a \<Rightarrow> ('a \<Rightarrow> error + 'b) \<Rightarrow> error + 'b" where
  "bnd r f = (case r of Inl e \<Rightarrow> Inl e | Inr v \<Rightarrow> f v)"

text \<open>
  A two-dimensional numpy array is the list of its rows. The empty list stands for the array
  of shape \<open>(0, 0)\<close>. A nested list whose rows differ in length is no numeric array of two
  dimensions, and no shape test below accepts it.
\<close>

type_synonym ndarray = "real list list"

definition is_shape :: "nat \<Rightarrow> nat \<Rightarrow> ndarray \<Rightarrow> bool" where
  \<comment> \<open>\<^verbatim>\<open>np.shape(a) == (r, c)\<close>\<close>
  "is_shape r c a = (length a = r \<and> list_all (\<lambda>row. length row = c) a)"

definition shape_ge :: "nat \<Rightarrow> nat \<Rightarrow> ndarray \<Rightarrow> bool" where
  \<comment> \<open>the array has at least \<open>r\<close> rows and \<open>c\<close> columns: the indices below \<open>(r, c)\<close> exist\<close>
  "shape_ge r c a = (r \<le> length a \<and> list_all (\<lambda>row. c \<le> length row) a)"

definition eye :: "nat \<Rightarrow> nat \<Rightarrow> ndarray" where
  \<comment> \<open>\<^verbatim>\<open>np.eye(r, c)\<close>\<close>
  "eye r c = map (\<lambda>i. map (\<lambda>j. if i = j then 1 else 0) [0..<c]) [0..<r]"

definition matmul :: "ndarray \<Rightarrow> ndarray \<Rightarrow> ndarray" where
  \<comment> \<open>the matrix product \<^verbatim>\<open>a.dot(b)\<close> of two arrays of matching shapes\<close>
  "matmul a b = map (\<lambda>r. map (\<lambda>c. sum_list (map2 (*) r c)) (transpose b)) a"

definition is_inverse :: "ndarray \<Rightarrow> ndarray \<Rightarrow> bool" where
  \<comment> \<open>two 4x4 arrays, each the matrix inverse of the other\<close>
  "is_inverse a b =
     (is_shape 4 4 a \<and> is_shape 4 4 b \<and> matmul a b = eye 4 4 \<and> matmul b a = eye 4 4)"

subsection \<open>Indexing and products with a vector\<close>

definition ncols :: "ndarray \<Rightarrow> nat" where
  "ncols a = (case a of [] \<Rightarrow> 0 | row # _ \<Rightarrow> length row)"

definition item :: "real list \<Rightarrow> nat \<Rightarrow> error + real" where
  \<comment> \<open>\<^verbatim>\<open>v[i]\<close>\<close>
  "item v i = (if i < length v then Inr (v ! i) else Inl IndexError)"

definition item2 :: "ndarray \<Rightarrow> nat \<Rightarrow> nat \<Rightarrow> error + real" where
  \<comment> \<open>\<^verbatim>\<open>a[i][j]\<close> and \<^verbatim>\<open>a[i, j]\<close>\<close>
  "item2 a i j = (if i < length a then item (a ! i) j else Inl IndexError)"

definition set2 :: "ndarray \<Rightarrow> nat \<Rightarrow> nat \<Rightarrow> real \<Rightarrow> ndarray" where
  \<comment> \<open>\<^verbatim>\<open>a[i][j] = v\<close> at an index that exists\<close>
  "set2 a i j v = a[i := (a ! i)[j := v]]"

definition slice2 :: "nat \<Rightarrow> nat \<Rightarrow> ndarray \<Rightarrow> ndarray" where
  \<comment> \<open>\<^verbatim>\<open>a[0:r, 0:c]\<close>: a slice never raises, it is cut at the array's bounds\<close>
  "slice2 r c a = map (take c) (take r a)"

definition column :: "nat \<Rightarrow> nat \<Rightarrow> ndarray \<Rightarrow> error + real list" where
  \<comment> \<open>\<^verbatim>\<open>a[0:r, j]\<close>: the column index must exist\<close>
  "column r j a = (if j < ncols a then Inr (map (\<lambda>row. row ! j) (take r a)) else Inl IndexError)"

definition dot_mv :: "ndarray \<Rightarrow> real list \<Rightarrow> error + real list" where
  \<comment> \<open>\<^verbatim>\<open>a.dot(v)\<close>: ValueError unless the rows of \<open>a\<close> are as long as \<open>v\<close>\<close>
  "dot_mv a v =
     (if ncols a \<noteq> length v then Inl ValueError
      else Inr (map (\<lambda>row. sum_list (map2 (*) row v)) a))"

definition T_dot_mv :: "ndarray \<Rightarrow> real list \<Rightarrow> error + real list" where
  \<comment> \<open>\<^verbatim>\<open>a.T.dot(v)\<close>: ValueError unless \<open>a\<close> has as many rows as \<open>v\<close> has entries\<close>
  "T_dot_mv a v =
     (if length a \<noteq> length v then Inl ValueError
      else Inr (map (\<lambda>col. sum_list (map2 (*) col v)) (transpose a)))"

definition trace :: "ndarray \<Rightarrow> real" where
  \<comment> \<open>\<^verbatim>\<open>a.trace()\<close>: the sum of the diagonal\<close>
  "trace a = sum_list (map (\<lambda>i. a ! i ! i) [0..<min (length a) (ncols a)])"

section \<open>Geometry and helpers of the modules that are not in the source tree\<close>

text \<open>
  Modelled from the spec: the classes \<^verbatim>\<open>Point\<close>, \<^verbatim>\<open>Vector\<close>, \<^verbatim>\<open>Normal\<close> and \<^verbatim>\<open>BBox\<close> of
  \<^verbatim>\<open>src.core.geometry\<close> are missing. The specification (section 6) asks of them their raw
  coordinates, and of a bounding box its two corners and a union. They are three coordinates
  each, with the componentwise sum and quotient that \<^verbatim>\<open>Transform.__call__\<close> uses.
\<close>

datatype Point = Point real real real

datatype Vector = Vector real real real

datatype Normal = Normal real real real

record BBox =
  pMin :: Point
  pMax :: Point

fun Vector_add :: "Vector \<Rightarrow> Vector \<Rightarrow> Vector" where
  "Vector_add (Vector a b c) (Vector d e f) = Vector (a + d) (b + e) (c + f)"

fun Point_add :: "Point \<Rightarrow> Vector \<Rightarrow> Point" where
  "Point_add (Point a b c) (Vector d e f) = Point (a + d) (b + e) (c + f)"

fun Point_div :: "Point \<Rightarrow> real \<Rightarrow> Point" where
  "Point_div (Point a b c) k = Point (a / k) (b / k) (c / k)"

fun inside :: "Point \<Rightarrow> BBox \<Rightarrow> bool" where
  \<comment> \<open>the point lies in the box, bounds included\<close>
  "inside (Point x y z) b =
     (case pMin b of Point x0 y0 z0 \<Rightarrow> case pMax b of Point x1 y1 z1 \<Rightarrow>
        x0 \<le> x \<and> x \<le> x1 \<and> y0 \<le> y \<and> y \<le> y1 \<and> z0 \<le> z \<and> z \<le> z1)"

text \<open>
  Modelled from the spec: \<^verbatim>\<open>BBox()\<close> and \<^verbatim>\<open>BBox.union\<close> are missing. The specification (4.3)
  accumulates the union of the sampled boxes into a box that starts empty. The empty box,
  whose corners numpy holds as infinities, is \<open>None\<close>; the union of two boxes takes the
  componentwise minimum and maximum of their corners.
\<close>

fun BBox_union :: "BBox option \<Rightarrow> BBox \<Rightarrow> BBox option" where
  "BBox_union None b = Some b"
| "BBox_union (Some r) b =
     (case (pMin r, pMax r, pMin b, pMax b) of
        (Point x0 y0 z0, Point x1 y1 z1, Point u0 v0 w0, Point u1 v1 w1) \<Rightarrow>
          Some \<lparr>pMin = Point (min x0 u0) (min y0 v0) (min z0 w0),
                pMax = Point (max x1 u1) (max y1 v1) (max z1 w1)\<rparr>)"

text \<open>
  Modelled from the spec: \<^verbatim>\<open>ne_unity\<close>, \<^verbatim>\<open>EPS\<close> and \<^verbatim>\<open>Lerp\<close> of \<^verbatim>\<open>src.core.pytracer\<close> are
  missing. The specification compares with 1 within the tolerance \<^verbatim>\<open>EPS\<close> (4.1) and
  interpolates linearly (4.3). The tolerance, whose value is not in the source tree, is the
  parameter \<open>eps\<close> of every function that needs it.
\<close>

definition ne_unity :: "real \<Rightarrow> real \<Rightarrow> bool" where
  "ne_unity eps v = (v < 1 - eps \<or> 1 + eps < v)"

definition Lerp :: "real \<Rightarrow> real \<Rightarrow> real \<Rightarrow> real" where
  "Lerp s v1 v2 = (1 - s) * v1 + s * v2"

section \<open>Transform\<close>

text \<open>
  The class keeps the two private arrays \<^verbatim>\<open>__m\<close> and \<^verbatim>\<open>__mInv\<close>, read through the properties
  \<^verbatim>\<open>m\<close> and \<^verbatim>\<open>mInv\<close>; the record fields are \<open>t_m\<close> and \<open>t_mInv\<close>.
\<close>

record Transform =
  t_m :: ndarray
  t_mInv :: ndarray

text \<open>
  \<^verbatim>\<open>Transform.__init__(m=None, mInv=None)\<close>, lines 21 to 35. An argument left out or given as
  \<^verbatim>\<open>None\<close> is \<open>None\<close>. The branches are in the order of the source: no matrix, both matrices,
  the matrix alone. Only the last branch calls \<^verbatim>\<open>np.linalg.inv\<close>, after the test of the shape.
\<close>

fun Transform_init ::
  "(ndarray \<Rightarrow> error + ndarray) \<Rightarrow> ndarray option \<Rightarrow> ndarray option \<Rightarrow> error + Transform" where
  "Transform_init linalg_inv None mi = Inr \<lparr>t_m = eye 4 4, t_mInv = eye 4 4\<rparr>"
| "Transform_init linalg_inv (Some a) (Some ai) = Inr \<lparr>t_m = a, t_mInv = ai\<rparr>"
| "Transform_init linalg_inv (Some a) None =
     (if \<not> is_shape 4 4 a then Inl TypeError
      else bnd (linalg_inv a) (\<lambda>ai. Inr \<lparr>t_m = a, t_mInv = ai\<rparr>))"

definition Transform_eq :: "Transform \<Rightarrow> Transform \<Rightarrow> bool" where
  \<comment> \<open>\<^verbatim>\<open>__eq__\<close>: \<^verbatim>\<open>np.array_equal(self.m, other.m)\<close>; the inverses are not compared\<close>
  "Transform_eq t u = (t_m t = t_m u)"

definition Transform_ne :: "Transform \<Rightarrow> Transform \<Rightarrow> bool" where
  "Transform_ne t u = (\<not> (t_m t = t_m u))"

text \<open>
  \<^verbatim>\<open>Transform.__call__\<close>, lines 55 to 91, one function for each type of argument. A Point gets
  the translation and, when the fourth coordinate is not 1 within the tolerance, the
  perspective divide; a Vector gets the upper-left 3x3 block of \<open>m\<close>; a Normal gets the
  transposed upper-left 3x3 block of the stored \<open>mInv\<close>.
\<close>

definition Transform_call_Point :: "real \<Rightarrow> Transform \<Rightarrow> Point \<Rightarrow> error + Point" where
  "Transform_call_Point eps t p =
     (case p of Point px py pz \<Rightarrow>
      bnd (dot_mv (slice2 4 3 (t_m t)) [px, py, pz]) (\<lambda>d.
      bnd (column 4 3 (t_m t)) (\<lambda>c.
      let res = map2 (+) d c in
      bnd (item res 0) (\<lambda>r0. bnd (item res 1) (\<lambda>r1. bnd (item res 2) (\<lambda>r2.
      bnd (item res 3) (\<lambda>r3.
        if ne_unity eps r3
        then (if r3 = 0 then Inl NonFinite else Inr (Point_div (Point r0 r1 r2) r3))
        else Inr (Point r0 r1 r2))))))))"

definition Transform_call_Vector :: "Transform \<Rightarrow> Vector \<Rightarrow> error + Vector" where
  "Transform_call_Vector t v =
     (case v of Vector vx vy vz \<Rightarrow>
      bnd (dot_mv (slice2 3 3 (t_m t)) [vx, vy, vz]) (\<lambda>res.
      bnd (item res 0) (\<lambda>r0. bnd (item res 1) (\<lambda>r1. bnd (item res 2) (\<lambda>r2.
        Inr (Vector r0 r1 r2))))))"

definition Transform_call_Normal :: "Transform \<Rightarrow> Normal \<Rightarrow> error + Normal" where
  "Transform_call_Normal t n =
     (case n of Normal nx ny nz \<Rightarrow>
      bnd (T_dot_mv (slice2 3 3 (t_mInv t)) [nx, ny, nz]) (\<lambda>res.
      bnd (item res 0) (\<lambda>r0. bnd (item res 1) (\<lambda>r1. bnd (item res 2) (\<lambda>r2.
        Inr (Normal r0 r1 r2))))))"

definition Transform_call_BBox :: "real \<Rightarrow> Transform \<Rightarrow> BBox \<Rightarrow> error + BBox" where
  "Transform_call_BBox eps t b =
     (case (pMin b, pMax b) of (Point x0 y0 z0, Point x1 y1 z1) \<Rightarrow>
      let x = Vector (x1 - x0) 0 0; y = Vector 0 (y1 - y0) 0; z = Vector 0 0 (z1 - z0) in
      bnd (Transform_call_Point eps t (pMin b)) (\<lambda>pmin.
      bnd (Transform_call_Vector t x) (\<lambda>x'.
      bnd (Transform_call_Vector t y) (\<lambda>y'.
      bnd (Transform_call_Vector t z) (\<lambda>z'.
        Inr \<lparr>pMin = pmin, pMax = Point_add pmin (Vector_add (Vector_add x' y') z')\<rparr>)))))"

text \<open>
  The named constructors that the claims use. \<^verbatim>\<open>scale\<close> divides Python numbers, so a zero
  factor raises ZeroDivisionError. Angles are in degrees; \<^verbatim>\<open>np.deg2rad\<close> multiplies by
  \<open>pi / 180\<close>. Both end in the two-matrix constructor.
\<close>

definition Transform_scale ::
  "(ndarray \<Rightarrow> error + ndarray) \<Rightarrow> real \<Rightarrow> real \<Rightarrow> real \<Rightarrow> error + Transform" where
  "Transform_scale linalg_inv x y z =
     (if x = 0 \<or> y = 0 \<or> z = 0 then Inl ZeroDivisionError
      else Transform_init linalg_inv
             (Some (set2 (set2 (set2 (eye 4 4) 0 0 x) 1 1 y) 2 2 z))
             (Some (set2 (set2 (set2 (eye 4 4) 0 0 (1 / x)) 1 1 (1 / y)) 2 2 (1 / z))))"

definition deg2rad :: "real \<Rightarrow> real" where
  "deg2rad angle = angle * (pi / 180)"

definition Transform_rotate_z :: "(ndarray \<Rightarrow> error + ndarray) \<Rightarrow> real \<Rightarrow> error + Transform" where
  "Transform_rotate_z linalg_inv angle =
     (let sin_t = sin (deg2rad angle); cos_t = cos (deg2rad angle);
          a = set2 (set2 (set2 (set2 (eye 4 4) 0 0 cos_t) 0 1 (- sin_t)) 1 0 sin_t) 1 1 cos_t
      in Transform_init linalg_inv (Some a) (Some (transpose a)))"

definition Transform_inverse :: "(ndarray \<Rightarrow> error + ndarray) \<Rightarrow> Transform \<Rightarrow> error + Transform" where
  "Transform_inverse linalg_inv t = Transform_init linalg_inv (Some (t_mInv t)) (Some (t_m t))"

definition has_scale :: "real \<Rightarrow> Transform \<Rightarrow> error + bool" where
  \<comment> \<open>lines 239 to 242; \<^verbatim>\<open>or\<close> stops at the first true test\<close>
  "has_scale eps t =
     bnd (item2 (t_m t) 0 0) (\<lambda>a.
     if ne_unity eps (a * a) then Inr True
     else bnd (item2 (t_m t) 1 1) (\<lambda>b.
     if ne_unity eps (b * b) then Inr True
     else bnd (item2 (t_m t) 2 2) (\<lambda>c. Inr (ne_unity eps (c * c)))))"

section \<open>Quaternion\<close>

text \<open>
  \<^verbatim>\<open>Quaternion = np.quaternion\<close> belongs to the numpy-quaternion package: four components,
  given to the constructor and read back in the order \<open>w, x, y, z\<close>.
\<close>

datatype Quaternion = Quaternion (q_w: real) (q_x: real) (q_y: real) (q_z: real)

text \<open>
  \<^verbatim>\<open>toTransform\<close>, lines 24 to 30: the local names \<open>x, y, z, w\<close> take the components
  \<open>w, x, y, z\<close> in this order, the array has three rows of three entries, and it goes to the
  one-matrix constructor of Transform.
\<close>

definition toTransform :: "(ndarray \<Rightarrow> error + ndarray) \<Rightarrow> Quaternion \<Rightarrow> error + Transform" where
  "toTransform linalg_inv q =
     (let x = q_w q; y = q_x q; z = q_y q; w = q_z q;
          a = [[1 - 2 * (y * y + z * z), 2 * (x * y + z * w), 2 * (x * z - y * w)],
               [2 * (x * y - z * w), 1 - 2 * (x * x + z * z), 2 * (y * z + x * w)],
               [2 * (x * z + y * w), 2 * (y * z - x * w), 1 - 2 * (x * x + y * y)]]
      in Transform_init linalg_inv (Some a) None)"

text \<open>
  \<^verbatim>\<open>fromTransform\<close>, lines 33 to 66. Both branches read entries of the rows and columns 0 to
  2 (the first reads \<open>m[2, 1]\<close> and \<open>m[1, 2]\<close>, the second \<open>m[1, 1]\<close>, \<open>m[0, 0]\<close> and
  \<open>m[2, 2]\<close> before anything else), so an array with fewer than three rows or columns raises
  IndexError. The trace is the trace of the whole array. The results go to the constructor of
  the quaternion in the order of the source.
\<close>

definition fromTransform :: "Transform \<Rightarrow> error + Quaternion" where
  "fromTransform t =
     (let m = t_m t; tr = trace m in
      if \<not> shape_ge 3 3 m then Inl IndexError
      else if tr > 0 then
        (let s0 = sqrt (tr + 1); w = s0 / 2; s = 0.5 / s0;
             x = (m ! 2 ! 1 - m ! 1 ! 2) * s;
             y = (m ! 0 ! 2 - m ! 2 ! 0) * s;
             z = (m ! 1 ! 0 - m ! 0 ! 1) * s
         in Inr (Quaternion x y z w))
      else
        (let nxt = [1, 2, 0 :: nat];
             i0 = (if m ! 1 ! 1 > m ! 0 ! 0 then 1 else 0);
             i = (if m ! 2 ! 2 < m ! i0 ! i0 then 2 else i0);
             j = nxt ! i;
             k = nxt ! j;
             r = (m ! i ! i - (m ! j ! j + m ! k ! k)) + 1
         in if r < 0 then Inl NonFinite
            else
              (let s0 = sqrt r;
                   q0 = [0, 0, 0 :: real][i := s0 * 0.5];
                   s = (if s0 \<noteq> 0 then 0.5 / s0 else s0);
                   w = (m ! k ! j - m ! j ! k) * s;
                   q1 = q0[j := (m ! j ! i + m ! i ! j) * s];
                   q2 = q1[k := (m ! k ! i + m ! i ! k) * s]
               in Inr (Quaternion (q2 ! 0) (q2 ! 1) (q2 ! 2) w))))"

section \<open>AnimatedTransform\<close>

text \<open>
  The instance has the five attributes that \<^verbatim>\<open>__init__\<close> sets on \<^verbatim>\<open>self\<close> (lines 250 to 254).
  The lists \<open>T\<close>, \<open>R\<close> and \<open>S\<close> of lines 255 to 257 are local variables of the constructor:
  no attribute keeps the decompositions.
\<close>

record AnimatedTransform =
  startTime :: real
  endTime :: real
  startTransform :: Transform
  endTransform :: Transform
  animated :: bool

text \<open>
  \<^verbatim>\<open>AnimatedTransform.__init__\<close>, lines 249 to 257: the five attributes, then the two calls of
  \<^verbatim>\<open>Decompose\<close> on the arrays \<open>m\<close> of the two Transforms. Nothing compares the two times, and
  \<^verbatim>\<open>Decompose\<close> does not receive them. The body of \<^verbatim>\<open>Decompose\<close> (lines 312 to 336) cannot be
  translated: its line 327, \<^verbatim>\<open>for norm > EPS and _ in range(100):\<close>, is not a Python
  statement. Its outcome on an array, an exception or a value, is therefore the parameter
  \<open>Decompose\<close> of the constructor, and the statements below hold for every such function.
\<close>

definition AnimatedTransform_init ::
  "(ndarray \<Rightarrow> error + 'd) \<Rightarrow> Transform \<Rightarrow> real \<Rightarrow> Transform \<Rightarrow> real \<Rightarrow>
     error + AnimatedTransform" where
  "AnimatedTransform_init Decompose t1 tm1 t2 tm2 =
     (let self = \<lparr>startTime = tm1, endTime = tm2, startTransform = t1, endTransform = t2,
                  animated = Transform_ne t1 t2\<rparr>
      in bnd (Decompose (t_m (startTransform self))) (\<lambda>d0.
         bnd (Decompose (t_m (endTransform self))) (\<lambda>d1. Inr self)))"

text \<open>
  The first statement of \<^verbatim>\<open>Decompose\<close>, line 318, is Python: it reads the translation
  \<open>m[0, 3]\<close>, \<open>m[1, 3]\<close>, \<open>m[2, 3]\<close> and raises IndexError on an array that lacks one of
  these entries. It serves below as one function among those the parameter ranges over, one
  that returns on some arrays and raises on others.
\<close>

definition Decompose_translation :: "ndarray \<Rightarrow> error + Vector" where
  "Decompose_translation m =
     bnd (item2 m 0 3) (\<lambda>t0. bnd (item2 m 1 3) (\<lambda>t1. bnd (item2 m 2 3) (\<lambda>t2.
       Inr (Vector t0 t1 t2))))"

text \<open>
  \<^verbatim>\<open>interpolate\<close>, lines 339 to 353. Past the two early returns the method computes \<open>dt\<close>
  (the denominator is positive there) and then reads \<^verbatim>\<open>self.T\<close>, an attribute that no
  instance has: it raises AttributeError. The lines after it, which name \<open>R\<close> and \<open>S\<close> without
  \<^verbatim>\<open>self\<close> and end without a \<^verbatim>\<open>return\<close>, are never reached.
\<close>

definition interpolate :: "AnimatedTransform \<Rightarrow> real \<Rightarrow> error + Transform" where
  "interpolate a time =
     (if \<not> animated a \<or> time \<le> startTime a then Inr (startTransform a)
      else if time \<ge> endTime a then Inr (endTransform a)
      else Inl AttributeError)"

text \<open>
  \<^verbatim>\<open>motion_bounds\<close>, lines 297 to 308. The branch of an instance that is not animated names
  \<^verbatim>\<open>startTransform\<close> without \<^verbatim>\<open>self\<close>; no such name is bound, so it raises NameError. The
  other branch runs over \<^verbatim>\<open>range(128)\<close>.
\<close>

fun motion_loop ::
  "(ndarray \<Rightarrow> error + ndarray) \<Rightarrow> real \<Rightarrow> AnimatedTransform \<Rightarrow> BBox \<Rightarrow> bool \<Rightarrow> nat list \<Rightarrow>
     BBox option \<Rightarrow> error + BBox option" where
  "motion_loop linalg_inv eps a b useInv [] ret = Inr ret"
| "motion_loop linalg_inv eps a b useInv (i # rest) ret =
     (let time = Lerp (real i * (1 / (128 - 1))) (startTime a) (endTime a) in
      bnd (interpolate a time) (\<lambda>t.
      bnd (if useInv then Transform_inverse linalg_inv t else Inr t) (\<lambda>t'.
      bnd (Transform_call_BBox eps t' b) (\<lambda>tb.
        motion_loop linalg_inv eps a b useInv rest (BBox_union ret tb)))))"

definition motion_bounds ::
  "(ndarray \<Rightarrow> error + ndarray) \<Rightarrow> real \<Rightarrow> AnimatedTransform \<Rightarrow> BBox \<Rightarrow> bool \<Rightarrow>
     error + BBox option" where
  "motion_bounds linalg_inv eps a b useInv =
     (if \<not> animated a then Inl NameError
      else motion_loop linalg_inv eps a b useInv [0..<128] None)"

section \<open>Concrete inputs\<close>

text \<open>
  The values at which the theorems below evaluate the functions: the identity
  \<^verbatim>\<open>Transform()\<close>; \<^verbatim>\<open>Transform(np.eye(4), 2 * np.eye(4))\<close>, whose second array is not the inverse
  of the first; a shear with a translation and its inverse; the quarter turn
  \<^verbatim>\<open>Transform.rotate_z(90)\<close>; a Transform whose array has one entry; the unit cube; and
  instances of AnimatedTransform with the attributes that the constructor sets.
\<close>

definition identity :: Transform where
  "identity = \<lparr>t_m = eye 4 4, t_mInv = eye 4 4\<rparr>"

definition skewed :: Transform where
  "skewed = \<lparr>t_m = eye 4 4, t_mInv = map (map ((*) 2)) (eye 4 4)\<rparr>"

definition sheared :: Transform where
  "sheared =
     \<lparr>t_m = [[1, 2, 0, 7], [0, 1, 0, 0], [0, 0, 1, 0], [0, 0, 0, 1]],
      t_mInv = [[1, - 2, 0, - 7], [0, 1, 0, 0], [0, 0, 1, 0], [0, 0, 0, 1]]\<rparr>"

definition single :: Transform where
  "single = \<lparr>t_m = [[1]], t_mInv = [[1]]\<rparr>"

definition quarter_turn :: Transform where
  "quarter_turn =
     \<lparr>t_m = [[0, - 1, 0, 0], [1, 0, 0, 0], [0, 0, 1, 0], [0, 0, 0, 1]],
      t_mInv = [[0, 1, 0, 0], [- 1, 0, 0, 0], [0, 0, 1, 0], [0, 0, 0, 1]]\<rparr>"

definition unit_cube :: BBox where
  "unit_cube = \<lparr>pMin = Point 0 0 0, pMax = Point 1 1 1\<rparr>"

definition still :: AnimatedTransform where
  "still = \<lparr>startTime = 0, endTime = 1, startTransform = identity, endTransform = identity,
            animated = Transform_ne identity identity\<rparr>"

definition moving :: AnimatedTransform where
  "moving = \<lparr>startTime = 0, endTime = 1, startTransform = identity,
             endTransform = quarter_turn, animated = Transform_ne identity quarter_turn\<rparr>"

section \<open>4x4 arrays\<close>

lemma eye44: "eye 4 4 = [[1, 0, 0, 0], [0, 1, 0, 0], [0, 0, 1, 0], [0, 0, 0, 1]]"
  by (simp add: eye_def upt_rec)

lemma list4: "length xs = 4 \<Longrightarrow> \<exists>a b c d. xs = [a, b, c, d]"
  by (auto simp: numeral_eq_Suc length_Suc_conv)

lemma shape44_explicit:
  assumes "is_shape 4 4 a"
  shows "\<exists>a0 a1 a2 a3 b0 b1 b2 b3 c0 c1 c2 c3 d0 d1 d2 d3.
           a = [[a0, a1, a2, a3], [b0, b1, b2, b3], [c0, c1, c2, c3], [d0, d1, d2, d3]]"
proof -
  from assms obtain r0 r1 r2 r3 where a: "a = [r0, r1, r2, r3]"
    unfolding is_shape_def using list4 by blast
  with assms have "length r0 = 4" "length r1 = 4" "length r2 = 4" "length r3 = 4"
    by (simp_all add: is_shape_def)
  then show ?thesis
    using a list4 [of r0] list4 [of r1] list4 [of r2] list4 [of r3] by blast
qed

lemma shape44_ge33: "is_shape 4 4 a \<Longrightarrow> shape_ge 3 3 a"
  by (simp add: is_shape_def shape_ge_def list_all_iff)

lemma matmul4_assoc:
  "matmul (matmul [[a0, a1, a2, a3], [b0, b1, b2, b3], [c0, c1, c2, c3], [d0, d1, d2, d3]]
                  [[p0, p1, p2, p3], [q0, q1, q2, q3], [r0, r1, r2, r3], [s0, s1, s2, s3]])
          [[e0, e1, e2, e3], [f0, f1, f2, f3], [g0, g1, g2, g3], [h0, h1, h2, h3]]
   = matmul [[a0, a1, a2, a3], [b0, b1, b2, b3], [c0, c1, c2, c3], [d0, d1, d2, d3]]
       (matmul [[p0, p1, p2, p3], [q0, q1, q2, q3], [r0, r1, r2, r3], [s0, s1, s2, s3]]
               [[e0, e1, e2, e3], [f0, f1, f2, f3], [g0, g1, g2, g3], [h0, h1, h2, h3]])"
  by (simp add: matmul_def algebra_simps)

lemma matmul4_eye:
  "matmul [[a0, a1, a2, a3], [b0, b1, b2, b3], [c0, c1, c2, c3], [d0, d1, d2, d3]] (eye 4 4)
     = [[a0, a1, a2, a3], [b0, b1, b2, b3], [c0, c1, c2, c3], [d0, d1, d2, d3]]"
  "matmul (eye 4 4) [[a0, a1, a2, a3], [b0, b1, b2, b3], [c0, c1, c2, c3], [d0, d1, d2, d3]]
     = [[a0, a1, a2, a3], [b0, b1, b2, b3], [c0, c1, c2, c3], [d0, d1, d2, d3]]"
  by (simp_all add: matmul_def eye44)

lemma inverse_unique:
  assumes b: "is_inverse a b" and c: "is_inverse a c"
  shows "b = c"
proof -
  from b c have sa: "is_shape 4 4 a" and sb: "is_shape 4 4 b" and sc: "is_shape 4 4 c"
    and ba: "matmul b a = eye 4 4" and ac: "matmul a c = eye 4 4"
    by (simp_all add: is_inverse_def)
  from shape44_explicit [OF sa] shape44_explicit [OF sb] shape44_explicit [OF sc]
  have "matmul (matmul b a) c = matmul b (matmul a c)"
    using matmul4_assoc by force
  moreover have "matmul (eye 4 4) c = c"
    using shape44_explicit [OF sc] matmul4_eye(2) by force
  moreover have "matmul b (eye 4 4) = b"
    using shape44_explicit [OF sb] matmul4_eye(1) by force
  ultimately show ?thesis
    using ba ac by simp
qed

section \<open>The constructor of Transform\<close>

text \<open>
  With the matrix alone the constructor raises TypeError on every array that is not 4x4,
  before \<^verbatim>\<open>np.linalg.inv\<close> is called; on a 4x4 array it raises what \<^verbatim>\<open>np.linalg.inv\<close> raises and
  otherwise stores the array that \<^verbatim>\<open>np.linalg.inv\<close> returns, with no test of its own.
\<close>

lemma Transform_init_matrix_alone_delegates:
  "Transform_init linalg_inv (Some a) None =
     (if \<not> is_shape 4 4 a then Inl TypeError
      else case linalg_inv a of Inl e \<Rightarrow> Inl e | Inr ai \<Rightarrow> Inr \<lparr>t_m = a, t_mInv = ai\<rparr>)"
  by (simp add: bnd_def)

text \<open>
  C10. With both arrays given, the constructor returns a Transform that holds exactly the two
  arrays, whatever they are: arrays that are not 4x4 are accepted, and so is a second array
  that is not the inverse of the first, as in \<open>skewed\<close>, where neither product of the two
  stored arrays is the identity.
\<close>

theorem Transform_init_two_matrices:
  "Transform_init linalg_inv (Some a) (Some ai) = Inr \<lparr>t_m = a, t_mInv = ai\<rparr> \<and>
   Transform_init linalg_inv (Some [[1, 2, 3]]) (Some []) = Inr \<lparr>t_m = [[1, 2, 3]], t_mInv = []\<rparr> \<and>
   Transform_init linalg_inv (Some (t_m skewed)) (Some (t_mInv skewed)) = Inr skewed \<and>
   is_shape 4 4 (t_m skewed) \<and> is_shape 4 4 (t_mInv skewed) \<and>
   matmul (t_m skewed) (t_mInv skewed) \<noteq> eye 4 4 \<and>
   matmul (t_mInv skewed) (t_m skewed) \<noteq> eye 4 4"
  by (simp add: skewed_def eye44 matmul_def is_shape_def)

section \<open>Normals\<close>

lemma take3:
  assumes "3 \<le> length xs"
  shows "\<exists>a b c. take 3 xs = [a, b, c] \<and> a = xs ! 0 \<and> b = xs ! 1 \<and> c = xs ! 2"
proof -
  from assms obtain a b c ys where "xs = a # b # c # ys"
    by (metis (no_types, opaque_lifting) Suc_le_length_iff numeral_3_eq_3)
  then show ?thesis by simp
qed

lemma call_Normal_entries:
  assumes "shape_ge 3 3 (t_mInv t)"
  shows "Transform_call_Normal t (Normal nx ny nz) =
     Inr (Normal (t_mInv t ! 0 ! 0 * nx + t_mInv t ! 1 ! 0 * ny + t_mInv t ! 2 ! 0 * nz)
                 (t_mInv t ! 0 ! 1 * nx + t_mInv t ! 1 ! 1 * ny + t_mInv t ! 2 ! 1 * nz)
                 (t_mInv t ! 0 ! 2 * nx + t_mInv t ! 1 ! 2 * ny + t_mInv t ! 2 ! 2 * nz))"
proof -
  let ?a = "t_mInv t"
  from assms have l: "3 \<le> length ?a" and r: "\<forall>row \<in> set ?a. 3 \<le> length row"
    by (simp_all add: shape_ge_def list_all_iff)
  from take3 [OF l] obtain r0 r1 r2 where
    t: "take 3 ?a = [r0, r1, r2]" and e: "r0 = ?a ! 0" "r1 = ?a ! 1" "r2 = ?a ! 2"
    by blast
  from l have "?a ! 0 \<in> set ?a" "?a ! 1 \<in> set ?a" "?a ! 2 \<in> set ?a"
    by (auto intro!: nth_mem)
  with r e have "3 \<le> length r0" "3 \<le> length r1" "3 \<le> length r2"
    by blast+
  from take3 [OF this(1)] take3 [OF this(2)] take3 [OF this(3)]
  obtain a0 a1 a2 b0 b1 b2 c0 c1 c2 where
    "take 3 r0 = [a0, a1, a2]" "a0 = r0 ! 0" "a1 = r0 ! 1" "a2 = r0 ! 2"
    "take 3 r1 = [b0, b1, b2]" "b0 = r1 ! 0" "b1 = r1 ! 1" "b2 = r1 ! 2"
    "take 3 r2 = [c0, c1, c2]" "c0 = r2 ! 0" "c1 = r2 ! 1" "c2 = r2 ! 2"
    by blast
  with t e show ?thesis
    by (simp add: Transform_call_Normal_def T_dot_mv_def slice2_def bnd_def item_def)
qed

lemma scale211:
  "Transform_scale linalg_inv 2 1 1 =
     Inr \<lparr>t_m = [[2, 0, 0, 0], [0, 1, 0, 0], [0, 0, 1, 0], [0, 0, 0, 1]],
          t_mInv = [[1 / 2, 0, 0, 0], [0, 1, 0, 0], [0, 0, 1, 0], [0, 0, 0, 1]]\<rparr>"
  by (simp add: Transform_scale_def set2_def eye44)

text \<open>
  C1. For a Transform in the sense of the specification (section 3: \<open>m\<close> and \<open>mInv\<close> are 4x4
  and \<open>mInv\<close> is the matrix inverse of \<open>m\<close>), applying it to a Normal returns the upper-left
  3x3 block of the inverse transpose of \<open>m\<close> applied to the components of the Normal: for the
  inverse \<open>b\<close> of \<open>m\<close>, the entry in row \<open>i\<close> and column \<open>j\<close> of that block is \<open>b ! j ! i\<close>.
  No entry of the fourth row or column enters, so there is no translation, and the result is
  not renormalised. \<^verbatim>\<open>scale(2, 1, 1)\<close> sends the Normal \<open>(1, 0, 0)\<close> to \<open>(1/2, 0, 0)\<close>.
\<close>

theorem Transform_call_Normal_inverse_transpose:
  "(is_inverse (t_m t) (t_mInv t) \<and> is_inverse (t_m t) b \<longrightarrow>
      Transform_call_Normal t (Normal nx ny nz) =
        Inr (Normal (b ! 0 ! 0 * nx + b ! 1 ! 0 * ny + b ! 2 ! 0 * nz)
                    (b ! 0 ! 1 * nx + b ! 1 ! 1 * ny + b ! 2 ! 1 * nz)
                    (b ! 0 ! 2 * nx + b ! 1 ! 2 * ny + b ! 2 ! 2 * nz))) \<and>
   bnd (Transform_scale linalg_inv 2 1 1) (\<lambda>s. Transform_call_Normal s (Normal 1 0 0)) =
     Inr (Normal (1 / 2) 0 0)"
proof (intro conjI impI)
  assume h: "is_inverse (t_m t) (t_mInv t) \<and> is_inverse (t_m t) b"
  then have "t_mInv t = b"
    by (blast intro: inverse_unique)
  moreover from h have "shape_ge 3 3 (t_mInv t)"
    by (simp add: is_inverse_def shape44_ge33)
  ultimately show "Transform_call_Normal t (Normal nx ny nz) =
        Inr (Normal (b ! 0 ! 0 * nx + b ! 1 ! 0 * ny + b ! 2 ! 0 * nz)
                    (b ! 0 ! 1 * nx + b ! 1 ! 1 * ny + b ! 2 ! 1 * nz)
                    (b ! 0 ! 2 * nx + b ! 1 ! 2 * ny + b ! 2 ! 2 * nz))"
    using call_Normal_entries [of t nx ny nz] by simp
next
  show "bnd (Transform_scale linalg_inv 2 1 1) (\<lambda>s. Transform_call_Normal s (Normal 1 0 0)) =
     Inr (Normal (1 / 2) 0 0)"
    by (simp add: scale211 bnd_def Transform_call_Normal_def T_dot_mv_def slice2_def item_def)
qed

text \<open>
  The shear with a translation sends the Normal \<open>(3, 4, 5)\<close> to \<open>(3, -2, 5)\<close>: the array \<open>m\<close>
  itself would give \<open>(3, 10, 5)\<close>, the inverse without the transposition \<open>(-5, 4, 5)\<close>.
\<close>

theorem Transform_call_Normal_inverse_transpose_witness:
  "is_inverse (t_m sheared) (t_mInv sheared) \<and>
   Transform_call_Normal sheared (Normal 3 4 5) = Inr (Normal 3 (- 2) 5)"
proof -
  have h: "is_inverse (t_m sheared) (t_mInv sheared)"
    by (simp add: sheared_def is_inverse_def is_shape_def matmul_def eye44)
  from Transform_call_Normal_inverse_transpose [of sheared "t_mInv sheared" 3 4 5] h
  have "Transform_call_Normal sheared (Normal 3 4 5) =
      Inr (Normal (t_mInv sheared ! 0 ! 0 * 3 + t_mInv sheared ! 1 ! 0 * 4 + t_mInv sheared ! 2 ! 0 * 5)
                  (t_mInv sheared ! 0 ! 1 * 3 + t_mInv sheared ! 1 ! 1 * 4 + t_mInv sheared ! 2 ! 1 * 5)
                  (t_mInv sheared ! 0 ! 2 * 3 + t_mInv sheared ! 1 ! 2 * 4 + t_mInv sheared ! 2 ! 2 * 5))"
    by blast
  then have "Transform_call_Normal sheared (Normal 3 4 5) = Inr (Normal 3 (- 2) 5)"
    by (simp add: sheared_def)
  with h show ?thesis
    by blast
qed

section \<open>Bounding boxes, scale and rotations\<close>

lemma rotate_z_90: "Transform_rotate_z linalg_inv 90 = Inr quarter_turn"
  by (simp add: Transform_rotate_z_def deg2rad_def Let_def set2_def eye44 quarter_turn_def)

lemma call_Point_quarter_turn:
  "0 \<le> eps \<Longrightarrow> Transform_call_Point eps quarter_turn (Point x y z) = Inr (Point (- y) x z)"
  by (simp add: Transform_call_Point_def quarter_turn_def dot_mv_def slice2_def ncols_def
      column_def bnd_def item_def ne_unity_def)

lemma call_Vector_quarter_turn:
  "Transform_call_Vector quarter_turn (Vector x y z) = Inr (Vector (- y) x z)"
  by (simp add: Transform_call_Vector_def quarter_turn_def dot_mv_def slice2_def ncols_def
      bnd_def item_def)

lemma call_BBox_quarter_turn:
  "0 \<le> eps \<Longrightarrow> Transform_call_BBox eps quarter_turn unit_cube =
     Inr \<lparr>pMin = Point 0 0 0, pMax = Point (- 1) 1 1\<rparr>"
  by (simp add: Transform_call_BBox_def unit_cube_def call_Point_quarter_turn
      call_Vector_quarter_turn bnd_def)

lemma has_scale_quarter_turn_any: "eps < 1 \<Longrightarrow> has_scale eps quarter_turn = Inr True"
  by (simp add: has_scale_def quarter_turn_def item2_def item_def bnd_def ne_unity_def)

text \<open>
  C2. The claim asks the box returned for a bounding box to contain the image of every point
  of the box. \<^verbatim>\<open>Transform.rotate_z(90)\<close> applied to the unit cube returns the box from
  \<open>(0, 0, 0)\<close> to \<open>(-1, 1, 1)\<close>, the images of the two corners: the point \<open>(1, 0, 0)\<close> of the
  cube goes to \<open>(0, 1, 0)\<close>, which is not in that box. The tolerance is \<open>1/100000\<close>; by the
  lemmas above any tolerance from 0 gives the same values.
\<close>

theorem Transform_call_BBox_quarter_turn:
  "Transform_rotate_z linalg_inv 90 = Inr quarter_turn \<and>
   Transform_call_BBox (1 / 100000) quarter_turn unit_cube =
     Inr \<lparr>pMin = Point 0 0 0, pMax = Point (- 1) 1 1\<rparr> \<and>
   inside (Point 1 0 0) unit_cube \<and>
   Transform_call_Point (1 / 100000) quarter_turn (Point 1 0 0) = Inr (Point 0 1 0) \<and>
   \<not> inside (Point 0 1 0) \<lparr>pMin = Point 0 0 0, pMax = Point (- 1) 1 1\<rparr>"
proof -
  have "inside (Point 1 0 0) unit_cube"
    by (simp add: unit_cube_def)
  then show ?thesis
    by (simp add: rotate_z_90 call_BBox_quarter_turn call_Point_quarter_turn)
qed

text \<open>
  C8. The claim asks \<^verbatim>\<open>has_scale\<close> to be false on a pure rotation. \<^verbatim>\<open>has_scale\<close> squares the
  three diagonal entries of \<open>m\<close>: on \<^verbatim>\<open>Transform.rotate_z(90)\<close>, whose first diagonal entry is
  0, it returns True, although the images of the three unit basis vectors are unit vectors.
  The tolerance is \<open>1/100000\<close>; by the lemma above any tolerance below 1 gives the same
  value.
\<close>

theorem has_scale_quarter_turn:
  "Transform_rotate_z linalg_inv 90 = Inr quarter_turn \<and>
   has_scale (1 / 100000) quarter_turn = Inr True \<and>
   Transform_call_Vector quarter_turn (Vector 1 0 0) = Inr (Vector 0 1 0) \<and>
   Transform_call_Vector quarter_turn (Vector 0 1 0) = Inr (Vector (- 1) 0 0) \<and>
   Transform_call_Vector quarter_turn (Vector 0 0 1) = Inr (Vector 0 0 1)"
  by (simp add: rotate_z_90 call_Vector_quarter_turn has_scale_quarter_turn_any)

section \<open>Quaternions\<close>

text \<open>
  C7. The claim asks the round trip through \<^verbatim>\<open>toTransform\<close> and \<^verbatim>\<open>fromTransform\<close> to give back
  a unit quaternion up to sign. \<^verbatim>\<open>toTransform\<close> hands its 3x3 array to the one-matrix
  constructor of Transform, which accepts 4x4 arrays only: for every quaternion it raises
  TypeError, and so does the round trip, here also at the unit quaternion with \<open>w = 1\<close>.
\<close>

theorem toTransform_raises:
  "toTransform linalg_inv q = Inl TypeError \<and>
   bnd (toTransform linalg_inv q) fromTransform = Inl TypeError \<and>
   bnd (toTransform linalg_inv (Quaternion 1 0 0 0)) fromTransform = Inl TypeError"
  by (simp add: toTransform_def Let_def is_shape_def bnd_def)

section \<open>Interpolation\<close>

text \<open>
  C6. The claim asks \<^verbatim>\<open>interpolate\<close> to return the recomposed Transform at a time strictly
  between the two key times of an animated instance. At every such time it raises
  AttributeError, for instance at the time \<open>1/2\<close> of the instance \<open>moving\<close> (from the identity
  at time 0 to the quarter turn at time 1).
\<close>

theorem interpolate_between_raises:
  "animated a \<Longrightarrow> startTime a < time \<Longrightarrow> time < endTime a \<Longrightarrow>
     interpolate a time = Inl AttributeError"
  by (simp add: interpolate_def)

theorem interpolate_between_raises_witness:
  "animated moving \<and> startTime moving < 1 / 2 \<and> 1 / 2 < endTime moving \<and>
   interpolate moving (1 / 2) = Inl AttributeError"
proof -
  have h: "animated moving" "startTime moving < 1 / 2" "1 / 2 < endTime moving"
    by (simp_all add: moving_def Transform_ne_def identity_def quarter_turn_def eye44)
  from interpolate_between_raises [OF h] h show ?thesis
    by blast
qed

text \<open>
  C5. For an instance in the sense of the specification (section 3: the start time is below
  the end time, and \<open>animated\<close> says whether the two Transforms differ, as the constructor
  sets it): when the instance is not animated or the time is at most the start time,
  \<^verbatim>\<open>interpolate\<close> returns the start Transform; when the time is at least the end time it
  returns the end Transform, which for an animated instance is the attribute itself and for
  an instance that is not animated the start Transform, equal to the end Transform in the
  sense of \<^verbatim>\<open>__eq__\<close>; an instance that is not animated returns the start Transform at every
  time.
\<close>

theorem interpolate_ends:
  assumes "startTime a < endTime a"
    and "animated a = Transform_ne (startTransform a) (endTransform a)"
  shows "(\<not> animated a \<or> time \<le> startTime a \<longrightarrow> interpolate a time = Inr (startTransform a)) \<and>
         (endTime a \<le> time \<and> animated a \<longrightarrow> interpolate a time = Inr (endTransform a)) \<and>
         (endTime a \<le> time \<longrightarrow>
            (\<exists>r. interpolate a time = Inr r \<and> Transform_eq r (endTransform a))) \<and>
         (\<not> animated a \<longrightarrow> (\<forall>u. interpolate a u = Inr (startTransform a)))"
  using assms by (auto simp: interpolate_def Transform_eq_def Transform_ne_def)

theorem interpolate_ends_witness:
  "startTime moving < endTime moving \<and>
   animated moving = Transform_ne (startTransform moving) (endTransform moving) \<and>
   animated moving \<and>
   interpolate moving (- 1) = Inr identity \<and> interpolate moving 0 = Inr identity \<and>
   interpolate moving 1 = Inr quarter_turn \<and> interpolate moving 2 = Inr quarter_turn \<and>
   startTime still < endTime still \<and>
   animated still = Transform_ne (startTransform still) (endTransform still) \<and>
   \<not> animated still \<and>
   interpolate still (1 / 2) = Inr identity \<and>
   (\<exists>r. interpolate still 5 = Inr r \<and> Transform_eq r (endTransform still))"
proof -
  have m: "startTime moving < endTime moving"
    "animated moving = Transform_ne (startTransform moving) (endTransform moving)"
    "animated moving" "startTime moving = 0" "endTime moving = 1"
    "startTransform moving = identity" "endTransform moving = quarter_turn"
    by (simp_all add: moving_def Transform_ne_def identity_def quarter_turn_def eye44)
  have s: "startTime still < endTime still"
    "animated still = Transform_ne (startTransform still) (endTransform still)"
    "\<not> animated still" "endTime still = 1" "startTransform still = identity"
    by (simp_all add: still_def Transform_ne_def)
  note M = interpolate_ends [OF m(1) m(2)]
  note S = interpolate_ends [OF s(1) s(2)]
  have "interpolate moving (- 1) = Inr identity" "interpolate moving 0 = Inr identity"
    using M [of "- 1"] M [of 0] m by simp_all
  moreover have "interpolate moving 1 = Inr quarter_turn" "interpolate moving 2 = Inr quarter_turn"
    using M [of 1] M [of 2] m by simp_all
  moreover have "interpolate still (1 / 2) = Inr identity"
    using S [of "1 / 2"] s by simp
  moreover have "endTime still \<le> 5"
    by (simp add: s)
  then have "\<exists>r. interpolate still 5 = Inr r \<and> Transform_eq r (endTransform still)"
    using S [of 5] by blast
  ultimately show ?thesis
    using m(1-3) s(1-3) by blast
qed

section \<open>The constructor of AnimatedTransform and the motion bounds\<close>

text \<open>
  C3, as amended. The constructor of AnimatedTransform does not compare the two times, in
  whatever order they come. When the two calls of \<^verbatim>\<open>Decompose\<close> return, it returns the
  instance with the start time \<open>tm1\<close> and the end time \<open>tm2\<close> as given; when one of them
  raises, it raises that exception. No outcome depends on the times.
\<close>

theorem AnimatedTransform_init_no_time_check:
  "(Decompose (t_m t1) = Inr d0 \<and> Decompose (t_m t2) = Inr d1 \<longrightarrow>
      AnimatedTransform_init Decompose t1 tm1 t2 tm2 =
        Inr \<lparr>startTime = tm1, endTime = tm2, startTransform = t1, endTransform = t2,
             animated = Transform_ne t1 t2\<rparr>) \<and>
   (Decompose (t_m t1) = Inl e \<longrightarrow> AnimatedTransform_init Decompose t1 tm1 t2 tm2 = Inl e) \<and>
   (Decompose (t_m t1) = Inr d0 \<and> Decompose (t_m t2) = Inl e \<longrightarrow>
      AnimatedTransform_init Decompose t1 tm1 t2 tm2 = Inl e)"
  by (simp add: AnimatedTransform_init_def bnd_def)

text \<open>
  With the translation of line 318 for \<^verbatim>\<open>Decompose\<close>: between two identity Transforms the
  times \<open>(1, 0)\<close> give an instance with the start time 1 and the end time 0; a Transform
  whose array has one entry makes the constructor raise IndexError with the times \<open>(0, 1)\<close>,
  as the first or as the second Transform.
\<close>

theorem AnimatedTransform_init_no_time_check_witness:
  "Decompose_translation (t_m identity) = Inr (Vector 0 0 0) \<and>
   AnimatedTransform_init Decompose_translation identity 1 identity 0 =
     Inr \<lparr>startTime = 1, endTime = 0, startTransform = identity, endTransform = identity,
          animated = Transform_ne identity identity\<rparr> \<and>
   Decompose_translation (t_m single) = Inl IndexError \<and>
   AnimatedTransform_init Decompose_translation single 0 identity 1 = Inl IndexError \<and>
   AnimatedTransform_init Decompose_translation identity 0 single 1 = Inl IndexError"
proof -
  have i: "Decompose_translation (t_m identity) = Inr (Vector 0 0 0)"
    by (simp add: Decompose_translation_def identity_def eye44 item2_def item_def bnd_def)
  have s: "Decompose_translation (t_m single) = Inl IndexError"
    by (simp add: Decompose_translation_def single_def item2_def item_def bnd_def)
  from AnimatedTransform_init_no_time_check
         [of Decompose_translation identity "Vector 0 0 0" identity "Vector 0 0 0" 1 0] i
  have a: "AnimatedTransform_init Decompose_translation identity 1 identity 0 =
     Inr \<lparr>startTime = 1, endTime = 0, startTransform = identity, endTransform = identity,
          animated = Transform_ne identity identity\<rparr>"
    by blast
  from AnimatedTransform_init_no_time_check
         [of Decompose_translation single _ identity _ 0 1 IndexError] s
  have b: "AnimatedTransform_init Decompose_translation single 0 identity 1 = Inl IndexError"
    by blast
  from AnimatedTransform_init_no_time_check
         [of Decompose_translation identity "Vector 0 0 0" single _ 0 1 IndexError] i s
  have c: "AnimatedTransform_init Decompose_translation identity 0 single 1 = Inl IndexError"
    by blast
  from i s a b c show ?thesis
    by blast
qed

text \<open>
  The claim as written makes the constructor fail for \<open>tm1 \<ge> tm2\<close> and succeed for
  \<open>tm1 < tm2\<close>. Between two identity Transforms, whatever \<^verbatim>\<open>Decompose\<close> does, the constructor
  cannot fail with the times \<open>(1, 0)\<close> and succeed with the times \<open>(0, 1)\<close>.
\<close>

theorem AnimatedTransform_init_counterexample:
  "\<forall>Decompose :: ndarray \<Rightarrow> error + Vector.
     \<not> ((\<exists>e. AnimatedTransform_init Decompose identity 1 identity 0 = Inl e) \<and>
        (\<exists>a. AnimatedTransform_init Decompose identity 0 identity 1 = Inr a))"
  by (auto simp: AnimatedTransform_init_def bnd_def Let_def split: sum.splits)

lemma call_BBox_identity:
  "0 \<le> eps \<Longrightarrow> Transform_call_BBox eps identity unit_cube = Inr unit_cube"
  by (simp add: Transform_call_BBox_def Transform_call_Point_def Transform_call_Vector_def
      identity_def unit_cube_def eye44 dot_mv_def slice2_def ncols_def column_def bnd_def
      item_def ne_unity_def)

lemma upt128: "[0..<128] = 0 # 1 # [2..<128]"
  by (simp add: upt_rec)

text \<open>
  C9. The claim asks \<^verbatim>\<open>motion_bounds\<close> of an instance that is not animated to apply the start
  Transform to the box, inverted or not as \<open>useInv\<close> says, and of an animated instance to
  cover the 128 sampled boxes. On the instance \<open>still\<close> it raises NameError for both values
  of \<open>useInv\<close>, where the start Transform applied to the cube gives the cube; on the instance
  \<open>moving\<close> it raises AttributeError at the second sample.
\<close>

theorem motion_bounds_raises:
  "\<not> animated still \<and>
   motion_bounds linalg_inv (1 / 100000) still unit_cube False = Inl NameError \<and>
   motion_bounds linalg_inv (1 / 100000) still unit_cube True = Inl NameError \<and>
   Transform_call_BBox (1 / 100000) (startTransform still) unit_cube = Inr unit_cube \<and>
   animated moving \<and>
   motion_bounds linalg_inv (1 / 100000) moving unit_cube False = Inl AttributeError"
proof -
  have s: "\<not> animated still" "startTransform still = identity"
    by (simp_all add: still_def Transform_ne_def)
  have m: "animated moving"
    by (simp add: moving_def Transform_ne_def identity_def quarter_turn_def eye44)
  have i0: "interpolate moving (Lerp (real 0 * (1 / (128 - 1))) (startTime moving) (endTime moving))
              = Inr identity"
    by (simp add: interpolate_def Lerp_def moving_def)
  have i1: "interpolate moving (Lerp (real 1 * (1 / (128 - 1))) (startTime moving) (endTime moving))
              = Inl AttributeError"
    using m by (simp add: interpolate_def Lerp_def) (simp add: moving_def)
  have "motion_loop linalg_inv (1 / 100000) moving unit_cube False (0 # 1 # [2..<128]) None
          = Inl AttributeError"
    using i0 i1 by (simp add: bnd_def call_BBox_identity del: of_nat_0 of_nat_1 One_nat_def)
  with s m show ?thesis
    by (simp add: motion_bounds_def call_BBox_identity upt128)
qed

end
